theory Spec2Isabelle
  imports Main
begin

section \<open>Embedding the interpreter: a model of pybind11/embed.h\<close>

text \<open>
  The header drives the CPython runtime through a handful of C API primitives. The model
  threads an explicit \<open>world\<close> through every function: the part of the process state the
  header reads or writes, together with a log of the primitive calls made so far, in the
  order in which they were made. A function that can leave by an exception returns an
  \<open>outcome\<close> beside the world it leaves behind.
\<close>

subsection \<open>Build configuration\<close>

text \<open>
  The preprocessor symbols the header branches on. \<open>PYBIND11_INTERNALS_ID\<close> is a macro
  defined outside this header; it is taken as a parameter.
\<close>

record config =
  PY_MAJOR_VERSION :: nat
  PY_VERSION_HEX :: nat
  HAVE_BROKEN_MBSTOWCS :: bool
  PYBIND11_INTERNALS_ID :: string

subsection \<open>Values\<close>

text \<open>A \<open>wchar_t\<close> string is a list of code units; a \<open>char\<close> string is a \<open>string\<close>.\<close>

type_synonym wstring = "nat list"

text \<open>The vector handed to the set-argv primitives: \<open>char**\<close> on Python 2, \<open>wchar_t**\<close> on Python 3.\<close>

datatype argvec = Narrow "string list" | Wide "wstring list"

text \<open>
  What a C++ body can throw, as far as the handlers of this header tell them apart:
  \<open>std::runtime_error\<close> (thrown by \<open>pybind11_fail\<close>), \<open>pybind11::error_already_set\<close>,
  any other class derived from \<open>std::exception\<close>, and a value of a type that does not
  derive from \<open>std::exception\<close> (for instance \<open>throw 42;\<close>).
\<close>

datatype cpp_exception =
    Runtime_error string
  | Error_already_set string
  | Std_exception string
  | Foreign_exception

text \<open>\<open>e.what()\<close> for the exceptions that have it.\<close>

fun what :: "cpp_exception \<Rightarrow> string" where
  "what (Runtime_error m) = m"
| "what (Error_already_set m) = m"
| "what (Std_exception m) = m"
| "what Foreign_exception = []"

datatype outcome =
    Normal
  | Threw cpp_exception
  | Terminated
  | Undefined_behaviour

text \<open>
  Objects of the runtime that the header inspects: a capsule holds a native pointer, here
  the address of an internals cell (an \<open>internals**\<close>).
\<close>

datatype pyobject = Capsule nat | Other_object

text \<open>The log of primitive calls.\<close>

datatype event =
    Ev_Py_IsInitialized
  | Ev_Py_InitializeEx int
  | Ev_PyImport_AppendInittab string nat
  | Ev_PySys_SetArgv int argvec
  | Ev_PySys_SetArgvEx int argvec int
  | Ev_sys_path_pop
  | Ev_PyEval_GetBuiltins
  | Ev_get_internals_pp
  | Ev_Py_Finalize
  | Ev_delete "nat option"
  | Ev_store_null nat
  | Ev_PyErr_SetString string string

subsection \<open>The world\<close>

text \<open>
  \<^item> \<open>initialized\<close>: what \<open>Py_IsInitialized\<close> reports;
  \<^item> \<open>inittab\<close>: the table of built-in modules, a name and an initializer (a function
    pointer, here a number) per entry; \<open>inittab_can_grow\<close>: whether the allocator can
    extend it;
  \<^item> \<open>sys_argv\<close>, \<open>sys_path\<close>: the runtime's program arguments and module search path;
  \<^item> \<open>py_builtins\<close>: the built-in namespace;
  \<^item> \<open>internals_pp\<close>: the static \<open>internals**\<close> behind \<open>get_internals_pp()\<close>
    (\<open>None\<close> is \<open>nullptr\<close>); \<open>cells\<close>: the \<open>internals*\<close> stored at each cell address;
    \<open>live\<close>: the internals objects currently allocated;
  \<^item> \<open>py_error\<close>: the runtime's error indicator (exception type and message);
  \<^item> \<open>trace\<close>: the log of primitive calls, oldest first.
\<close>

record world =
  initialized :: bool
  inittab :: "(string \<times> nat) list"
  inittab_can_grow :: bool
  sys_argv :: "argvec option"
  sys_path :: "string list"
  py_builtins :: "string \<rightharpoonup> pyobject"
  internals_pp :: "nat option"
  cells :: "nat \<Rightarrow> nat option"
  live :: "nat set"
  py_error :: "(string \<times> string) option"
  trace :: "event list"

definition log_event :: "event \<Rightarrow> world \<Rightarrow> world" where
  "log_event e w = w\<lparr>trace := trace w @ [e]\<rparr>"

text \<open>
  What the runtime and the C library do beyond what their documentation fixes is left
  open: the decoders, the effect of start-up and tear-down on the rest of the world,
  whether start-up fails fatally, and the directory \<open>PySys_SetArgv\<close> derives from the
  arguments. Of \<open>mbstowcs\<close>, \<open>mbstowcs_count\<close> is the value of the measuring call
  \<open>mbstowcs(nullptr, s, 0)\<close>; \<open>mbstowcs_return\<close> and \<open>mbstowcs_fill\<close> are the value that the
  converting call \<open>mbstowcs(dst, s, n)\<close> returns and what it leaves in the buffer. For both
  values \<open>None\<close> is \<open>(size_t) -1\<close>, by which \<open>mbstowcs\<close> reports that the string cannot be
  converted.
\<close>

record env =
  Py_DecodeLocale :: "string \<Rightarrow> wstring option"
  mbstowcs_count :: "string \<Rightarrow> nat option"
  mbstowcs_return :: "string \<Rightarrow> nat \<Rightarrow> nat option"
  mbstowcs_fill :: "string \<Rightarrow> nat \<Rightarrow> wstring"
  init_fatal :: "world \<Rightarrow> bool"
  startup :: "world \<Rightarrow> world"
  teardown :: "world \<Rightarrow> world"
  script_dir :: "argvec \<Rightarrow> string"

subsection \<open>Primitives of the runtime\<close>

definition Py_IsInitialized :: "world \<Rightarrow> bool \<times> world" where
  "Py_IsInitialized w = (initialized w, log_event Ev_Py_IsInitialized w)"

text \<open>
  \<open>Py_InitializeEx\<close> does not return when initialization fails: the runtime terminates
  the process.
\<close>

definition Py_InitializeEx :: "env \<Rightarrow> int \<Rightarrow> world \<Rightarrow> outcome \<times> world" where
  "Py_InitializeEx rt flag w =
     (if init_fatal rt w then (Terminated, log_event (Ev_Py_InitializeEx flag) w)
      else (Normal, (startup rt w)\<lparr>initialized := True,
                                    trace := trace w @ [Ev_Py_InitializeEx flag]\<rparr>))"

text \<open>
  \<open>Py_Finalize\<close> undoes the initialization. Its tear-down runs arbitrary destructors,
  which may create or replace internals objects and cells.
\<close>

definition Py_Finalize :: "env \<Rightarrow> world \<Rightarrow> world" where
  "Py_Finalize rt w = (teardown rt w)\<lparr>initialized := False, trace := trace w @ [Ev_Py_Finalize]\<rparr>"

text \<open>\<open>PyImport_AppendInittab\<close> returns 0, or -1 when the table could not be extended.\<close>

definition PyImport_AppendInittab :: "string \<Rightarrow> nat \<Rightarrow> world \<Rightarrow> int \<times> world" where
  "PyImport_AppendInittab name init w =
     (if inittab_can_grow w
      then (0, (log_event (Ev_PyImport_AppendInittab name init) w)\<lparr>inittab := inittab w @ [(name, init)]\<rparr>)
      else (- 1, log_event (Ev_PyImport_AppendInittab name init) w))"

text \<open>
  \<open>PySys_SetArgvEx\<close> sets \<open>sys.argv\<close> and, when \<open>updatepath\<close> is non-zero, inserts the
  script directory at the front of \<open>sys.path\<close>; \<open>PySys_SetArgv\<close> always inserts it.
\<close>

definition PySys_SetArgvEx :: "env \<Rightarrow> int \<Rightarrow> argvec \<Rightarrow> int \<Rightarrow> world \<Rightarrow> world" where
  "PySys_SetArgvEx rt argc av updatepath w =
     (log_event (Ev_PySys_SetArgvEx argc av updatepath) w)
       \<lparr>sys_argv := Some av,
        sys_path := (if updatepath \<noteq> 0 then script_dir rt av # sys_path w else sys_path w)\<rparr>"

definition PySys_SetArgv :: "env \<Rightarrow> int \<Rightarrow> argvec \<Rightarrow> world \<Rightarrow> world" where
  "PySys_SetArgv rt argc av w =
     (log_event (Ev_PySys_SetArgv argc av) w)
       \<lparr>sys_argv := Some av, sys_path := script_dir rt av # sys_path w\<rparr>"

text \<open>
  \<open>module::import("sys").attr("path").attr("pop")()\<close>: the call passes no index, and
  Python's \<open>list.pop()\<close> without an index removes the last item; on an empty list it
  raises IndexError, which surfaces in C++ as \<open>error_already_set\<close>.
\<close>

definition sys_path_pop :: "world \<Rightarrow> outcome \<times> world" where
  "sys_path_pop w =
     (if sys_path w = []
      then (Threw (Error_already_set ''IndexError: pop from empty list''), log_event Ev_sys_path_pop w)
      else (Normal, (log_event Ev_sys_path_pop w)\<lparr>sys_path := butlast (sys_path w)\<rparr>))"

definition PyEval_GetBuiltins :: "world \<Rightarrow> (string \<rightharpoonup> pyobject) \<times> world" where
  "PyEval_GetBuiltins w = (py_builtins w, log_event Ev_PyEval_GetBuiltins w)"

definition PyErr_SetString :: "string \<Rightarrow> string \<Rightarrow> world \<Rightarrow> world" where
  "PyErr_SetString exc msg w = (log_event (Ev_PyErr_SetString exc msg) w)\<lparr>py_error := Some (exc, msg)\<rparr>"

subsection \<open>Helpers of the library declared outside this header\<close>

text \<open>
  Modelled from the spec: \<open>pybind11_fail\<close> is declared in another header. The call fails
  with a catchable error that carries the reason given (the spec's IllegalState and
  ResourceExhausted errors are such failures, told apart by their reason).
\<close>

definition pybind11_fail :: "string \<Rightarrow> world \<Rightarrow> outcome \<times> world" where
  "pybind11_fail reason w = (Threw (Runtime_error reason), w)"

text \<open>
  Modelled from the spec: \<open>detail::get_internals_pp\<close> is declared in another header. It
  fetches the pointer-to-pointer cell without creating an internals object: it reads the
  static pointer and changes nothing.
\<close>

definition get_internals_pp :: "world \<Rightarrow> nat option \<times> world" where
  "get_internals_pp w = (internals_pp w, log_event Ev_get_internals_pp w)"

text \<open>\<open>delete p\<close>: deleting \<open>nullptr\<close> does nothing.\<close>

definition delete_internals :: "nat option \<Rightarrow> world \<Rightarrow> world" where
  "delete_internals p w =
     (case p of
        None \<Rightarrow> log_event (Ev_delete None) w
      | Some a \<Rightarrow> (log_event (Ev_delete (Some a)) w)\<lparr>live := live w - {a}\<rparr>)"

text \<open>\<open>*pp = nullptr\<close>.\<close>

definition store_null :: "nat \<Rightarrow> world \<Rightarrow> world" where
  "store_null c w = (log_event (Ev_store_null c) w)\<lparr>cells := (cells w)(c := None)\<rparr>"

subsection \<open>Module pre-registration: \<open>detail::embedded_module\<close>\<close>

definition embedded_module :: "string \<Rightarrow> nat \<Rightarrow> world \<Rightarrow> outcome \<times> world" where
  "embedded_module name init w =
     (let (running, w0) = Py_IsInitialized w in
      if running
      then pybind11_fail ''Can't add new modules after the interpreter has been initialized'' w0
      else
        (let (result, w1) = PyImport_AppendInittab name init w0 in
         if result = - 1
         then pybind11_fail ''Insufficient memory to add a new module'' w1
         else (Normal, w1)))"

subsection \<open>The initializer wrapper of \<open>PYBIND11_EMBEDDED_MODULE\<close>\<close>

text \<open>
  \<open>pybind11_init_wrapper_<name>\<close>: the module object is built first, outside the \<open>try\<close>
  block (\<open>new_module\<close>, the constructor of \<open>pybind11::module\<close>, is a parameter: it yields
  the object's pointer or throws); then the user's body runs inside the \<open>try\<close> block.
  The body is a parameter too: it returns normally (\<open>None\<close>) or throws, and in both
  cases leaves a world behind. The result is the exception that leaves the wrapper, or
  the pointer it returns (\<open>None\<close> is \<open>nullptr\<close>).
\<close>

definition pybind11_init_wrapper ::
  "(string \<Rightarrow> world \<Rightarrow> (cpp_exception + nat) \<times> world) \<Rightarrow>
   (nat \<Rightarrow> world \<Rightarrow> cpp_exception option \<times> world) \<Rightarrow>
   string \<Rightarrow> world \<Rightarrow> (cpp_exception + nat option) \<times> world" where
  "pybind11_init_wrapper new_module body name w =
     (case new_module name w of
        (Inl e, w0) \<Rightarrow> (Inl e, w0)
      | (Inr m, w0) \<Rightarrow>
          (case body m w0 of
             (None, w1) \<Rightarrow> (Inr (Some m), w1)
           | (Some (Error_already_set msg), w1) \<Rightarrow>
               (Inr None, PyErr_SetString ''ImportError'' (what (Error_already_set msg)) w1)
           | (Some (Runtime_error msg), w1) \<Rightarrow>
               (Inr None, PyErr_SetString ''ImportError'' (what (Runtime_error msg)) w1)
           | (Some (Std_exception msg), w1) \<Rightarrow>
               (Inr None, PyErr_SetString ''ImportError'' (what (Std_exception msg)) w1)
           | (Some Foreign_exception, w1) \<Rightarrow> (Inl Foreign_exception, w1)))"

text \<open>
  \<open>pybind11_init_impl_<name>\<close>, the \<open>extern "C"\<close> entry registered with the runtime: on
  Python 3 it returns the wrapper's pointer, on Python 2 it returns nothing.
\<close>

datatype init_result = Init_pointer "nat option" | Init_void

definition pybind11_init_impl ::
  "config \<Rightarrow> (string \<Rightarrow> world \<Rightarrow> (cpp_exception + nat) \<times> world) \<Rightarrow>
   (nat \<Rightarrow> world \<Rightarrow> cpp_exception option \<times> world) \<Rightarrow>
   string \<Rightarrow> world \<Rightarrow> (cpp_exception + init_result) \<times> world" where
  "pybind11_init_impl cfg new_module body name w =
     (case pybind11_init_wrapper new_module body name w of
        (Inl e, w1) \<Rightarrow> (Inl e, w1)
      | (Inr p, w1) \<Rightarrow>
          (if 3 \<le> PY_MAJOR_VERSION cfg then (Inr (Init_pointer p), w1) else (Inr Init_void, w1)))"

subsection \<open>The argument encoder\<close>

text \<open>
  \<open>widen_chars\<close>: from Python 3.5 on \<open>Py_DecodeLocale\<close>; before, \<open>mbstowcs\<close>, measuring
  first (\<open>strlen\<close> where \<open>mbstowcs\<close> is broken). \<open>None\<close> is the null pointer, and for the
  count it is \<open>(size_t) -1\<close>. The value returned by the converting call
  \<open>mbstowcs(widened_arg, safe_arg, count + 1)\<close> is discarded by the source, so only the
  buffer it leaves enters the result. The allocations made with \<open>new\<close> are taken to succeed.
\<close>

definition widen_chars :: "config \<Rightarrow> env \<Rightarrow> string \<Rightarrow> wstring option" where
  "widen_chars cfg rt safe_arg =
     (if 0x030500f0 \<le> PY_VERSION_HEX cfg then Py_DecodeLocale rt safe_arg
      else
        (let count = (if HAVE_BROKEN_MBSTOWCS cfg then Some (length safe_arg)
                      else mbstowcs_count rt safe_arg)
         in case count of
              None \<Rightarrow> None
            | Some n \<Rightarrow> Some (mbstowcs_fill rt safe_arg (n + 1))))"

text \<open>
  The result of preparing the vector: converted, given up (the early \<open>return\<close>), or a
  read past the end of the caller's array (\<open>argc\<close> larger than the array \<open>argv\<close> points
  to), which C++ leaves undefined.
\<close>

datatype 'a conversion = Converted 'a | Give_up | Out_of_bounds

text \<open>
  The loop \<open>for (ii = 0; ii < argv_size; ++ii)\<close>: the first argument is the number of
  entries still to convert, the list is the array from index \<open>ii\<close> on.
\<close>

fun widen_loop :: "config \<Rightarrow> env \<Rightarrow> nat \<Rightarrow> string list \<Rightarrow> wstring list conversion" where
  "widen_loop cfg rt 0 av = Converted []"
| "widen_loop cfg rt (Suc n) [] = Out_of_bounds"
| "widen_loop cfg rt (Suc n) (a # av) =
     (case widen_chars cfg rt a of
        None \<Rightarrow> Give_up
      | Some wa \<Rightarrow>
          (case widen_loop cfg rt n av of
             Converted ws \<Rightarrow> Converted (wa # ws)
           | Give_up \<Rightarrow> Give_up
           | Out_of_bounds \<Rightarrow> Out_of_bounds))"

text \<open>
  \<open>pysys_argv\<close>: on Python 3 the widened copies; on Python 2 the caller's array itself, of
  which the runtime reads the first \<open>argc\<close> entries.
\<close>

definition pysys_argv :: "config \<Rightarrow> env \<Rightarrow> nat \<Rightarrow> string list \<Rightarrow> argvec conversion" where
  "pysys_argv cfg rt n safe_argv =
     (if 3 \<le> PY_MAJOR_VERSION cfg
      then (case widen_loop cfg rt n safe_argv of
              Converted ws \<Rightarrow> Converted (Wide ws)
            | Give_up \<Rightarrow> Give_up
            | Out_of_bounds \<Rightarrow> Out_of_bounds)
      else (if n \<le> length safe_argv then Converted (Narrow (take n safe_argv))
            else Out_of_bounds))"

text \<open>The condition under which \<open>PySys_SetArgvEx\<close> does not exist.\<close>

definition lacks_SetArgvEx :: "config \<Rightarrow> bool" where
  "lacks_SetArgvEx cfg \<longleftrightarrow>
     PY_VERSION_HEX cfg < 0x020606f0 \<or> (PY_MAJOR_VERSION cfg = 3 \<and> PY_VERSION_HEX cfg < 0x030103f0)"

text \<open>The special case for an empty or null \<open>argv\<close>: the count and the array used from then on.\<close>

definition safe_args :: "int \<Rightarrow> string list option \<Rightarrow> int \<times> string list" where
  "safe_args argc argv =
     (case argv of
        None \<Rightarrow> (1, [''''])
      | Some av \<Rightarrow> (if argc \<le> 0 then (1, ['''']) else (argc, av)))"

definition set_interpreter_argv ::
  "config \<Rightarrow> env \<Rightarrow> int \<Rightarrow> string list option \<Rightarrow> bool \<Rightarrow> world \<Rightarrow> outcome \<times> world" where
  "set_interpreter_argv cfg rt argc argv add_current_dir_to_path w =
     (let (argc, safe_argv) = safe_args argc argv in
      case pysys_argv cfg rt (nat argc) safe_argv of
        Give_up \<Rightarrow> (Normal, w)
      | Out_of_bounds \<Rightarrow> (Undefined_behaviour, w)
      | Converted av \<Rightarrow>
          (if lacks_SetArgvEx cfg
           then
             (let w1 = PySys_SetArgv rt argc av w in
              if \<not> add_current_dir_to_path then sys_path_pop w1 else (Normal, w1))
           else (Normal, PySys_SetArgvEx rt argc av (if add_current_dir_to_path then 1 else 0) w)))"

subsection \<open>The lifecycle controller\<close>

definition initialize_interpreter ::
  "config \<Rightarrow> env \<Rightarrow> bool \<Rightarrow> int \<Rightarrow> string list option \<Rightarrow> bool \<Rightarrow> world \<Rightarrow> outcome \<times> world" where
  "initialize_interpreter cfg rt init_signal_handlers argc argv add_current_dir_to_path w =
     (let (running, w0) = Py_IsInitialized w in
      if running then pybind11_fail ''The interpreter is already running'' w0
      else
        (case Py_InitializeEx rt (if init_signal_handlers then 1 else 0) w0 of
           (Normal, w1) \<Rightarrow> set_interpreter_argv cfg rt argc argv add_current_dir_to_path w1
         | (out, w1) \<Rightarrow> (out, w1)))"

text \<open>
  \<open>finalize_interpreter\<close>. The test \<open>builtins.contains(id) && isinstance<capsule>(builtins[id])\<close>
  reads the namespace captured before \<open>Py_Finalize\<close>; the conversion of the capsule to
  \<open>internals**\<close> yields the pointer the capsule holds.
\<close>

definition select_cell :: "(string \<rightharpoonup> pyobject) \<Rightarrow> string \<Rightarrow> nat option \<Rightarrow> nat option" where
  "select_cell builtins ident internals_ptr_ptr =
     (case builtins ident of
        Some (Capsule c) \<Rightarrow> Some c
      | Some Other_object \<Rightarrow> internals_ptr_ptr
      | None \<Rightarrow> internals_ptr_ptr)"

definition finalize_interpreter :: "config \<Rightarrow> env \<Rightarrow> world \<Rightarrow> world" where
  "finalize_interpreter cfg rt w =
     (let (builtins, w1) = PyEval_GetBuiltins w;
          ident = PYBIND11_INTERNALS_ID cfg;
          (pp, w2) = get_internals_pp w1;
          internals_ptr_ptr = select_cell builtins ident pp;
          w3 = Py_Finalize rt w2
      in case internals_ptr_ptr of
           None \<Rightarrow> w3
         | Some c \<Rightarrow> store_null c (delete_internals (cells w3 c) w3))"

subsection \<open>The scoped guard\<close>

record scoped_interpreter =
  is_valid :: bool

text \<open>
  The constructor: \<open>is_valid\<close> takes its default member initializer \<open>true\<close>, then the body
  calls \<open>initialize_interpreter\<close>; when that throws, no guard comes into being.
\<close>

definition scoped_interpreter_ctor ::
  "config \<Rightarrow> env \<Rightarrow> bool \<Rightarrow> int \<Rightarrow> string list option \<Rightarrow> bool \<Rightarrow> world
     \<Rightarrow> outcome \<times> scoped_interpreter option \<times> world" where
  "scoped_interpreter_ctor cfg rt init_signal_handlers argc argv add_current_dir_to_path w =
     (case initialize_interpreter cfg rt init_signal_handlers argc argv add_current_dir_to_path w of
        (Normal, w1) \<Rightarrow> (Normal, Some \<lparr>is_valid = True\<rparr>, w1)
      | (out, w1) \<Rightarrow> (out, None, w1))"

text \<open>
  The move constructor \<open>scoped_interpreter(scoped_interpreter &&other) noexcept { other.is_valid = false; }\<close>:
  the new guard's \<open>is_valid\<close> takes its default member initializer. The result is the new
  guard and the source as the constructor leaves it.
\<close>

definition scoped_interpreter_move :: "scoped_interpreter \<Rightarrow> scoped_interpreter \<times> scoped_interpreter" where
  "scoped_interpreter_move other = (\<lparr>is_valid = True\<rparr>, other\<lparr>is_valid := False\<rparr>)"

definition scoped_interpreter_dtor :: "config \<Rightarrow> env \<Rightarrow> scoped_interpreter \<Rightarrow> world \<Rightarrow> world" where
  "scoped_interpreter_dtor cfg rt g w = (if is_valid g then finalize_interpreter cfg rt w else w)"

subsection \<open>Observations on a run\<close>

text \<open>The primitive calls made between two worlds of one run.\<close>

definition new_events :: "world \<Rightarrow> world \<Rightarrow> event list" where
  "new_events w w' = drop (length (trace w)) (trace w')"

text \<open>The calls of the set-argv primitives in a log, each with the count and the vector it was handed.\<close>

fun argv_call :: "event \<Rightarrow> (int \<times> argvec) option" where
  "argv_call (Ev_PySys_SetArgv n v) = Some (n, v)"
| "argv_call (Ev_PySys_SetArgvEx n v u) = Some (n, v)"
| "argv_call Ev_Py_IsInitialized = None"
| "argv_call (Ev_Py_InitializeEx f) = None"
| "argv_call (Ev_PyImport_AppendInittab name init) = None"
| "argv_call Ev_sys_path_pop = None"
| "argv_call Ev_PyEval_GetBuiltins = None"
| "argv_call Ev_get_internals_pp = None"
| "argv_call Ev_Py_Finalize = None"
| "argv_call (Ev_delete p) = None"
| "argv_call (Ev_store_null c) = None"
| "argv_call (Ev_PyErr_SetString exc msg) = None"

fun argv_calls :: "event list \<Rightarrow> (int \<times> argvec) list" where
  "argv_calls [] = []"
| "argv_calls (e # es) =
     (case argv_call e of None \<Rightarrow> argv_calls es | Some c \<Rightarrow> c # argv_calls es)"

text \<open>
  The world in which \<open>finalize_interpreter\<close> calls \<open>Py_Finalize\<close>: after the two lookups
  that precede it.
\<close>

definition lookups_done :: "world \<Rightarrow> world" where
  "lookups_done w = snd (get_internals_pp (snd (PyEval_GetBuiltins w)))"

text \<open>A host that calls \<open>initialize_interpreter\<close> several times in a row, with the arguments listed.\<close>

fun start_again ::
  "config \<Rightarrow> env \<Rightarrow> (bool \<times> int \<times> string list option \<times> bool) list \<Rightarrow> world \<Rightarrow> outcome list \<times> world" where
  "start_again cfg rt [] w = ([], w)"
| "start_again cfg rt ((s, n, a, d) # cs) w =
     (let (out, w1) = initialize_interpreter cfg rt s n a d w;
          (outs, w2) = start_again cfg rt cs w1
      in (out # outs, w2))"

subsection \<open>Example configurations, runtimes and worlds\<close>

definition cfg_py39 :: config where
  "cfg_py39 = \<lparr>PY_MAJOR_VERSION = 3, PY_VERSION_HEX = 0x030900f0, HAVE_BROKEN_MBSTOWCS = False,
               PYBIND11_INTERNALS_ID = ''__pybind11_internals_v4__''\<rparr>"

definition cfg_py26 :: config where
  "cfg_py26 = \<lparr>PY_MAJOR_VERSION = 2, PY_VERSION_HEX = 0x020600f0, HAVE_BROKEN_MBSTOWCS = False,
               PYBIND11_INTERNALS_ID = ''__pybind11_internals_v4__''\<rparr>"

text \<open>
  Two builds against Python 3.4, which has no \<open>Py_DecodeLocale\<close>: one on a platform where
  \<open>HAVE_BROKEN_MBSTOWCS\<close> is set, one where it is not.
\<close>

definition cfg_py34_broken :: config where
  "cfg_py34_broken = \<lparr>PY_MAJOR_VERSION = 3, PY_VERSION_HEX = 0x030400f0, HAVE_BROKEN_MBSTOWCS = True,
                      PYBIND11_INTERNALS_ID = ''__pybind11_internals_v4__''\<rparr>"

definition cfg_py34 :: config where
  "cfg_py34 = \<lparr>PY_MAJOR_VERSION = 3, PY_VERSION_HEX = 0x030400f0, HAVE_BROKEN_MBSTOWCS = False,
               PYBIND11_INTERNALS_ID = ''__pybind11_internals_v4__''\<rparr>"

text \<open>
  The decoders of the C locale. \<open>mbstowcs\<close> accepts 7-bit ASCII and rejects every other
  byte. \<open>Py_DecodeLocale\<close> does not reject a byte: it escapes a byte that is not ASCII as
  a surrogate in the range U+DC80 to U+DCFF.
\<close>

definition ascii_decode :: "string \<Rightarrow> wstring option" where
  "ascii_decode s = (if list_all (\<lambda>c. (of_char c :: nat) < 128) s then Some (map of_char s) else None)"

definition surrogateescape_decode :: "string \<Rightarrow> wstring option" where
  "surrogateescape_decode s =
     Some (map (\<lambda>c. if (of_char c :: nat) < 128 then of_char c else 0xDC00 + of_char c) s)"

text \<open>A tear-down during which a destructor creates internals object 9 and stores it in cell 5.\<close>

definition late_internals :: "world \<Rightarrow> world" where
  "late_internals w = w\<lparr>cells := (cells w)(5 := Some 9), live := insert 9 (live w)\<rparr>"

text \<open>
  A runtime in the C locale. The buffer that a failed \<open>mbstowcs\<close> call leaves behind is
  taken to hold the empty string.
\<close>

definition example_env :: env where
  "example_env =
     \<lparr>Py_DecodeLocale = surrogateescape_decode,
      mbstowcs_count = (\<lambda>s. map_option length (ascii_decode s)),
      mbstowcs_return = (\<lambda>s n. map_option (\<lambda>ws. min (length ws) n) (ascii_decode s)),
      mbstowcs_fill = (\<lambda>s n. case ascii_decode s of None \<Rightarrow> [] | Some ws \<Rightarrow> ws),
      init_fatal = (\<lambda>w. False),
      startup = (\<lambda>w. w),
      teardown = late_internals,
      script_dir = (\<lambda>av. ''/opt/app'')\<rparr>"

definition fresh_world :: world where
  "fresh_world =
     \<lparr>initialized = False, inittab = [], inittab_can_grow = True, sys_argv = None,
      sys_path = [''/usr/lib/python'', ''/usr/lib/site''], py_builtins = Map.empty,
      internals_pp = Some 5, cells = (\<lambda>c. None), live = {}, py_error = None, trace = []\<rparr>"

text \<open>A running world in which the internals cell 7 is stashed in the built-in namespace.\<close>

definition stashed_world :: world where
  "stashed_world =
     fresh_world\<lparr>initialized := True,
                 py_builtins := [''__pybind11_internals_v4__'' \<mapsto> Capsule 7],
                 cells := (\<lambda>c. if c = 7 then Some 3 else None), live := {3}\<rparr>"

text \<open>A running world without any internals cell.\<close>

definition bare_world :: world where
  "bare_world = fresh_world\<lparr>initialized := True, internals_pp := None\<rparr>"

text \<open>A module constructor that yields the object at a given address, and a body that throws.\<close>

definition module_at :: "nat \<Rightarrow> string \<Rightarrow> world \<Rightarrow> (cpp_exception + nat) \<times> world" where
  "module_at p name w = (Inr p, w)"

definition body_throws :: "cpp_exception \<Rightarrow> nat \<Rightarrow> world \<Rightarrow> cpp_exception option \<times> world" where
  "body_throws e m w = (Some e, w)"

section \<open>Properties\<close>

subsection \<open>Auxiliary facts\<close>

lemma finalize_interpreter_unfold:
  "finalize_interpreter cfg rt w =
     (case select_cell (py_builtins w) (PYBIND11_INTERNALS_ID cfg) (internals_pp w) of
        None \<Rightarrow> Py_Finalize rt (lookups_done w)
      | Some c \<Rightarrow> store_null c (delete_internals (cells (Py_Finalize rt (lookups_done w)) c)
                     (Py_Finalize rt (lookups_done w))))"
  by (simp add: finalize_interpreter_def lookups_done_def PyEval_GetBuiltins_def get_internals_pp_def
      log_event_def Let_def split: option.splits)

lemma trace_Py_Finalize_lookups:
  "trace (Py_Finalize rt (lookups_done w)) =
     trace w @ [Ev_PyEval_GetBuiltins, Ev_get_internals_pp, Ev_Py_Finalize]"
  by (simp add: Py_Finalize_def lookups_done_def PyEval_GetBuiltins_def get_internals_pp_def log_event_def)

lemma trace_free_step:
  "trace (store_null c (delete_internals p v)) = trace v @ [Ev_delete p, Ev_store_null c]"
  by (cases p) (simp_all add: store_null_def delete_internals_def log_event_def)

lemma free_step_heap:
  "cells (store_null c (delete_internals p v)) = (cells v)(c := None) \<and>
   live (store_null c (delete_internals p v)) = live v - set_option p"
  by (cases p) (simp_all add: store_null_def delete_internals_def log_event_def)

lemma lookups_done_heap:
  "cells (lookups_done w) = cells w \<and> live (lookups_done w) = live w \<and>
   internals_pp (lookups_done w) = internals_pp w"
  by (simp add: lookups_done_def PyEval_GetBuiltins_def get_internals_pp_def log_event_def)

lemma trace_finalize_interpreter:
  "trace (finalize_interpreter cfg rt w) =
     trace w @ [Ev_PyEval_GetBuiltins, Ev_get_internals_pp, Ev_Py_Finalize] @
       (case select_cell (py_builtins w) (PYBIND11_INTERNALS_ID cfg) (internals_pp w) of
          None \<Rightarrow> []
        | Some c \<Rightarrow> [Ev_delete (cells (Py_Finalize rt (lookups_done w)) c), Ev_store_null c])"
  by (simp add: finalize_interpreter_unfold trace_Py_Finalize_lookups trace_free_step split: option.splits)

lemma initialized_finalize_interpreter: "\<not> initialized (finalize_interpreter cfg rt w)"
  by (simp add: finalize_interpreter_unfold Py_Finalize_def store_null_def delete_internals_def
      log_event_def split: option.splits)

lemma count_Finalize_finalize_interpreter:
  "count_list (trace (finalize_interpreter cfg rt w)) Ev_Py_Finalize = count_list (trace w) Ev_Py_Finalize + 1"
  by (simp add: trace_finalize_interpreter split: option.splits)

lemma set_interpreter_argv_initialized:
  "set_interpreter_argv cfg rt argc argv d w = (out, w') \<Longrightarrow> initialized w' = initialized w"
  by (auto simp: set_interpreter_argv_def PySys_SetArgvEx_def PySys_SetArgv_def sys_path_pop_def
      log_event_def Let_def split: prod.splits conversion.splits if_splits)

lemma initialize_interpreter_running:
  "initialized w \<Longrightarrow>
   initialize_interpreter cfg rt s n a d w =
     (Threw (Runtime_error ''The interpreter is already running''), log_event Ev_Py_IsInitialized w)"
  by (simp add: initialize_interpreter_def Py_IsInitialized_def pybind11_fail_def)

lemma initialize_interpreter_Normal_initialized:
  "initialize_interpreter cfg rt s n a d w = (Normal, w') \<Longrightarrow> initialized w'"
  by (auto simp: initialize_interpreter_def Py_IsInitialized_def pybind11_fail_def Py_InitializeEx_def
      Let_def split: if_splits prod.splits outcome.splits dest!: set_interpreter_argv_initialized)

lemma start_again_running:
  "initialized w \<Longrightarrow>
   start_again cfg rt cs w =
     (replicate (length cs) (Threw (Runtime_error ''The interpreter is already running'')),
      w\<lparr>trace := trace w @ replicate (length cs) Ev_Py_IsInitialized\<rparr>)"
proof (induction cs arbitrary: w)
  case Nil
  then show ?case by simp
next
  case (Cons c cs)
  obtain s n a d where c: "c = (s, n, a, d)" by (cases c) auto
  have i: "initialized (log_event Ev_Py_IsInitialized w)"
    using Cons.prems by (simp add: log_event_def)
  show ?case
    using Cons.prems Cons.IH[OF i]
    by (simp add: c initialize_interpreter_running log_event_def replicate_append_same[symmetric])
qed

lemma scoped_interpreter_ctor_Normal:
  "scoped_interpreter_ctor cfg rt s n a d w = (Normal, Some g, w1) \<Longrightarrow>
   is_valid g \<and> initialize_interpreter cfg rt s n a d w = (Normal, w1)"
  by (auto simp: scoped_interpreter_ctor_def split: prod.splits outcome.splits)

subsection \<open>Shutdown: \<open>finalize_interpreter\<close>\<close>

text \<open>
  Claim C1. \<open>finalize_interpreter\<close> works in this order. It captures the built-in
  namespace and fetches the internals pointer-to-pointer; the fetch creates nothing (the
  cells, the allocated objects and the static pointer are as before). A capsule found
  under the internals identifier in the captured namespace replaces the fetched pointer;
  without such a capsule the fetched pointer stays. Only then it calls \<open>Py_Finalize\<close>:
  the calls made before it are exactly the two lookups, so nothing is freed before it.
  After \<open>Py_Finalize\<close> has returned, and only if the selected pointer is non-null, it
  deletes the object that the cell holds at that moment (in the world \<open>Py_Finalize\<close>
  left) and stores null in the cell, so that the selected cell holds null in the end.
\<close>

theorem finalize_interpreter_order:
  assumes "sel = select_cell (py_builtins w) (PYBIND11_INTERNALS_ID cfg) (internals_pp w)"
    and "w3 = Py_Finalize rt (lookups_done w)"
    and "w' = finalize_interpreter cfg rt w"
  shows "(\<forall>c. py_builtins w (PYBIND11_INTERNALS_ID cfg) = Some (Capsule c) \<longrightarrow> sel = Some c) \<and>
         ((\<forall>c. py_builtins w (PYBIND11_INTERNALS_ID cfg) \<noteq> Some (Capsule c)) \<longrightarrow> sel = internals_pp w) \<and>
         cells (lookups_done w) = cells w \<and> live (lookups_done w) = live w \<and>
         internals_pp (lookups_done w) = internals_pp w \<and>
         new_events w w' =
           [Ev_PyEval_GetBuiltins, Ev_get_internals_pp, Ev_Py_Finalize] @
           (case sel of None \<Rightarrow> [] | Some c \<Rightarrow> [Ev_delete (cells w3 c), Ev_store_null c]) \<and>
         takeWhile (\<lambda>e. e \<noteq> Ev_Py_Finalize) (new_events w w') = [Ev_PyEval_GetBuiltins, Ev_get_internals_pp] \<and>
         (\<forall>c. sel = Some c \<longrightarrow>
            cells w' = (cells w3)(c := None) \<and> live w' = live w3 - set_option (cells w3 c) \<and>
            cells w' c = None)"
proof -
  have sel1: "\<forall>c. py_builtins w (PYBIND11_INTERNALS_ID cfg) = Some (Capsule c) \<longrightarrow> sel = Some c"
    by (simp add: assms(1) select_cell_def)
  have sel2: "(\<forall>c. py_builtins w (PYBIND11_INTERNALS_ID cfg) \<noteq> Some (Capsule c)) \<longrightarrow> sel = internals_pp w"
    by (auto simp: assms(1) select_cell_def split: option.splits pyobject.splits)
  have tr: "new_events w w' =
           [Ev_PyEval_GetBuiltins, Ev_get_internals_pp, Ev_Py_Finalize] @
           (case sel of None \<Rightarrow> [] | Some c \<Rightarrow> [Ev_delete (cells w3 c), Ev_store_null c])"
    by (simp add: new_events_def assms trace_finalize_interpreter split: option.splits)
  have before: "takeWhile (\<lambda>e. e \<noteq> Ev_Py_Finalize) (new_events w w') = [Ev_PyEval_GetBuiltins, Ev_get_internals_pp]"
    by (simp add: tr)
  have heap: "\<forall>c. sel = Some c \<longrightarrow>
            cells w' = (cells w3)(c := None) \<and> live w' = live w3 - set_option (cells w3 c) \<and>
            cells w' c = None"
    using assms by (simp add: finalize_interpreter_unfold free_step_heap)
  show ?thesis using sel1 sel2 tr before heap lookups_done_heap[of w] by blast
qed

theorem finalize_interpreter_order_witness:
  "select_cell (py_builtins stashed_world) (PYBIND11_INTERNALS_ID cfg_py39) (internals_pp stashed_world) = Some 7 \<and>
   internals_pp stashed_world = Some 5 \<and>
   new_events stashed_world (finalize_interpreter cfg_py39 example_env stashed_world) =
     [Ev_PyEval_GetBuiltins, Ev_get_internals_pp, Ev_Py_Finalize, Ev_delete (Some 3), Ev_store_null 7] \<and>
   cells (finalize_interpreter cfg_py39 example_env stashed_world) 7 = None \<and>
   live (finalize_interpreter cfg_py39 example_env stashed_world) = {9}"
proof -
  have sel: "select_cell (py_builtins stashed_world) (PYBIND11_INTERNALS_ID cfg_py39) (internals_pp stashed_world) = Some 7"
    by (simp add: select_cell_def stashed_world_def fresh_world_def cfg_py39_def)
  have c7: "cells (Py_Finalize example_env (lookups_done stashed_world)) 7 = Some 3"
    by (simp add: Py_Finalize_def lookups_done_def PyEval_GetBuiltins_def get_internals_pp_def
        log_event_def example_env_def late_internals_def stashed_world_def fresh_world_def)
  have lv: "live (Py_Finalize example_env (lookups_done stashed_world)) = {9, 3}"
    by (simp add: Py_Finalize_def lookups_done_def PyEval_GetBuiltins_def get_internals_pp_def
        log_event_def example_env_def late_internals_def stashed_world_def fresh_world_def)
  have pp: "internals_pp stashed_world = Some 5"
    by (simp add: stashed_world_def fresh_world_def)
  note t = finalize_interpreter_order [OF sel [symmetric] refl refl, of example_env]
  from t have ev: "new_events stashed_world (finalize_interpreter cfg_py39 example_env stashed_world) =
     [Ev_PyEval_GetBuiltins, Ev_get_internals_pp, Ev_Py_Finalize, Ev_delete (Some 3), Ev_store_null 7]"
    by (simp add: c7)
  from t have nul: "cells (finalize_interpreter cfg_py39 example_env stashed_world) 7 = None"
    by simp
  from t have "live (finalize_interpreter cfg_py39 example_env stashed_world) = {9, 3} - {3}"
    by (simp add: c7 lv)
  then have lv': "live (finalize_interpreter cfg_py39 example_env stashed_world) = {9}"
    by (simp add: insert_Diff_if)
  show ?thesis
    using sel pp ev nul lv' by simp
qed

text \<open>
  Claim C10. The cell is dereferenced only under the null check: when the selected
  pointer is null, \<open>finalize_interpreter\<close> is the two lookups followed by \<open>Py_Finalize\<close>
  and nothing else. No \<open>delete\<close> and no store happen, the cells and the allocated objects
  are as the tear-down left them, even where the tear-down created an internals object,
  and the function returns with the runtime shut down.
\<close>

theorem finalize_interpreter_null_cell:
  assumes "select_cell (py_builtins w) (PYBIND11_INTERNALS_ID cfg) (internals_pp w) = None"
  shows "finalize_interpreter cfg rt w = Py_Finalize rt (lookups_done w) \<and>
         new_events w (finalize_interpreter cfg rt w) =
           [Ev_PyEval_GetBuiltins, Ev_get_internals_pp, Ev_Py_Finalize] \<and>
         cells (finalize_interpreter cfg rt w) = cells (teardown rt (lookups_done w)) \<and>
         live (finalize_interpreter cfg rt w) = live (teardown rt (lookups_done w)) \<and>
         \<not> initialized (finalize_interpreter cfg rt w)"
proof -
  have eq: "finalize_interpreter cfg rt w = Py_Finalize rt (lookups_done w)"
    using assms by (simp add: finalize_interpreter_unfold)
  have ev: "new_events w (Py_Finalize rt (lookups_done w)) =
           [Ev_PyEval_GetBuiltins, Ev_get_internals_pp, Ev_Py_Finalize]"
    by (simp add: new_events_def trace_Py_Finalize_lookups)
  have rest: "cells (Py_Finalize rt (lookups_done w)) = cells (teardown rt (lookups_done w)) \<and>
         live (Py_Finalize rt (lookups_done w)) = live (teardown rt (lookups_done w)) \<and>
         \<not> initialized (Py_Finalize rt (lookups_done w))"
    by (simp add: Py_Finalize_def)
  show ?thesis
    using ev rest by (simp add: eq)
qed

theorem finalize_interpreter_null_cell_witness:
  "select_cell (py_builtins bare_world) (PYBIND11_INTERNALS_ID cfg_py39) (internals_pp bare_world) = None \<and>
   new_events bare_world (finalize_interpreter cfg_py39 example_env bare_world) =
     [Ev_PyEval_GetBuiltins, Ev_get_internals_pp, Ev_Py_Finalize] \<and>
   cells (finalize_interpreter cfg_py39 example_env bare_world) 5 = Some 9 \<and>
   live (finalize_interpreter cfg_py39 example_env bare_world) = {9}"
proof -
  have sel: "select_cell (py_builtins bare_world) (PYBIND11_INTERNALS_ID cfg_py39) (internals_pp bare_world) = None"
    by (simp add: select_cell_def bare_world_def fresh_world_def cfg_py39_def)
  have td: "cells (teardown example_env (lookups_done bare_world)) 5 = Some 9 \<and>
            live (teardown example_env (lookups_done bare_world)) = {9}"
    by (simp add: lookups_done_def PyEval_GetBuiltins_def get_internals_pp_def
        log_event_def example_env_def late_internals_def bare_world_def fresh_world_def)
  note t = finalize_interpreter_null_cell [OF sel, of example_env]
  from t have ev: "new_events bare_world (finalize_interpreter cfg_py39 example_env bare_world) =
     [Ev_PyEval_GetBuiltins, Ev_get_internals_pp, Ev_Py_Finalize]"
    by blast
  from t have "cells (finalize_interpreter cfg_py39 example_env bare_world) =
      cells (teardown example_env (lookups_done bare_world))"
    by blast
  with td have c5: "cells (finalize_interpreter cfg_py39 example_env bare_world) 5 = Some 9"
    by simp
  from t have "live (finalize_interpreter cfg_py39 example_env bare_world) =
      live (teardown example_env (lookups_done bare_world))"
    by blast
  with td have lv: "live (finalize_interpreter cfg_py39 example_env bare_world) = {9}"
    by simp
  show ?thesis
    using sel ev c5 lv by simp
qed

subsection \<open>Start-up: \<open>initialize_interpreter\<close>\<close>

text \<open>
  Claim C2. A call of \<open>initialize_interpreter\<close> made while the runtime is initialized
  fails with the error "The interpreter is already running" and does nothing else: the
  only primitive it calls is the query \<open>Py_IsInitialized\<close>, so \<open>Py_InitializeEx\<close> is not
  invoked. After a successful start the runtime is initialized, and every further start,
  whatever its arguments and however many follow one another, fails in this way.
\<close>

theorem initialize_interpreter_already_running:
  "(initialized w \<longrightarrow>
      initialize_interpreter cfg rt s n a d w =
        (Threw (Runtime_error ''The interpreter is already running''), log_event Ev_Py_IsInitialized w)) \<and>
   (initialize_interpreter cfg rt s n a d w = (Normal, w') \<longrightarrow>
      initialized w' \<and>
      start_again cfg rt cs w' =
        (replicate (length cs) (Threw (Runtime_error ''The interpreter is already running'')),
         w'\<lparr>trace := trace w' @ replicate (length cs) Ev_Py_IsInitialized\<rparr>))"
  using initialize_interpreter_running initialize_interpreter_Normal_initialized start_again_running
  by blast

theorem initialize_interpreter_already_running_witness:
  "initialized bare_world \<and>
   initialize_interpreter cfg_py39 example_env True 0 None True bare_world =
     (Threw (Runtime_error ''The interpreter is already running''), log_event Ev_Py_IsInitialized bare_world) \<and>
   fst (initialize_interpreter cfg_py39 example_env True 0 None True fresh_world) = Normal \<and>
   fst (start_again cfg_py39 example_env [(True, 0, None, True), (False, 1, Some [''prog''], False)]
         (snd (initialize_interpreter cfg_py39 example_env True 0 None True fresh_world))) =
     [Threw (Runtime_error ''The interpreter is already running''),
      Threw (Runtime_error ''The interpreter is already running'')]"
proof -
  have run: "initialized bare_world"
    by (simp add: bare_world_def fresh_world_def)
  have ok: "fst (initialize_interpreter cfg_py39 example_env True 0 None True fresh_world) = Normal"
    by (simp add: initialize_interpreter_def Py_IsInitialized_def Py_InitializeEx_def
        set_interpreter_argv_def safe_args_def pysys_argv_def widen_chars_def lacks_SetArgvEx_def
        PySys_SetArgvEx_def log_event_def cfg_py39_def example_env_def surrogateescape_decode_def fresh_world_def)
  then have eq: "initialize_interpreter cfg_py39 example_env True 0 None True fresh_world =
      (Normal, snd (initialize_interpreter cfg_py39 example_env True 0 None True fresh_world))"
    by (simp add: prod_eq_iff)
  note t1 = initialize_interpreter_already_running
    [of bare_world cfg_py39 example_env True 0 None True]
  note t2 = initialize_interpreter_already_running
    [of fresh_world cfg_py39 example_env True 0 None True
        "snd (initialize_interpreter cfg_py39 example_env True 0 None True fresh_world)"
        "[(True, 0, None, True), (False, 1, Some [''prog''], False)]"]
  from t1 run have a: "initialize_interpreter cfg_py39 example_env True 0 None True bare_world =
     (Threw (Runtime_error ''The interpreter is already running''), log_event Ev_Py_IsInitialized bare_world)"
    by blast
  from t2 eq have "start_again cfg_py39 example_env [(True, 0, None, True), (False, 1, Some [''prog''], False)]
         (snd (initialize_interpreter cfg_py39 example_env True 0 None True fresh_world)) =
        (replicate (length [(True, 0::int, None :: string list option, True), (False, 1, Some [''prog''], False)])
            (Threw (Runtime_error ''The interpreter is already running'')),
         (snd (initialize_interpreter cfg_py39 example_env True 0 None True fresh_world))
           \<lparr>trace := trace (snd (initialize_interpreter cfg_py39 example_env True 0 None True fresh_world))
              @ replicate (length [(True, 0::int, None :: string list option, True), (False, 1, Some [''prog''], False)])
                  Ev_Py_IsInitialized\<rparr>)"
    by blast
  then have b: "fst (start_again cfg_py39 example_env [(True, 0, None, True), (False, 1, Some [''prog''], False)]
         (snd (initialize_interpreter cfg_py39 example_env True 0 None True fresh_world))) =
     [Threw (Runtime_error ''The interpreter is already running''),
      Threw (Runtime_error ''The interpreter is already running'')]"
    by (simp add: numeral_2_eq_2)
  show ?thesis using run a ok b by simp
qed

subsection \<open>The argument encoder: \<open>set_interpreter_argv\<close>\<close>

text \<open>
  Claim C3. When the argument count is at most 0 or the argument array is the null
  pointer, the encoder returns normally and every vector it hands to a set-argv primitive
  comes with the count 1 and has exactly one element, the empty string: the \<open>char\<close> string
  itself on Python 2, its widened form on Python 3. There is at most one such call (none
  when widening the empty string fails), and never one with an empty or null vector.
\<close>

theorem set_interpreter_argv_empty:
  assumes "argv = None \<or> argc \<le> 0"
  shows "fst (set_interpreter_argv cfg rt argc argv d w) = Normal \<and>
         argv_calls (new_events w (snd (set_interpreter_argv cfg rt argc argv d w))) =
           (if 3 \<le> PY_MAJOR_VERSION cfg
            then (case widen_chars cfg rt '''' of None \<Rightarrow> [] | Some e \<Rightarrow> [(1, Wide [e])])
            else [(1, Narrow [''''])]) \<and>
         (\<forall>c \<in> set (argv_calls (new_events w (snd (set_interpreter_argv cfg rt argc argv d w)))).
            fst c = 1 \<and>
            (snd c = Narrow [''''] \<or> (\<exists>e. widen_chars cfg rt '''' = Some e \<and> snd c = Wide [e])))"
proof -
  have sa: "safe_args argc argv = (1, [''''])"
    using assms by (auto simp: safe_args_def split: option.splits)
  have out: "fst (set_interpreter_argv cfg rt argc argv d w) = Normal"
    by (simp add: set_interpreter_argv_def sa pysys_argv_def
        PySys_SetArgvEx_def PySys_SetArgv_def sys_path_pop_def log_event_def
        split: option.splits)
  have calls: "argv_calls (new_events w (snd (set_interpreter_argv cfg rt argc argv d w))) =
           (if 3 \<le> PY_MAJOR_VERSION cfg
            then (case widen_chars cfg rt '''' of None \<Rightarrow> [] | Some e \<Rightarrow> [(1, Wide [e])])
            else [(1, Narrow [''''])])"
    by (simp add: set_interpreter_argv_def sa pysys_argv_def new_events_def
        PySys_SetArgvEx_def PySys_SetArgv_def sys_path_pop_def log_event_def
        split: option.splits)
  have each: "\<forall>c \<in> set (if 3 \<le> PY_MAJOR_VERSION cfg
            then (case widen_chars cfg rt '''' of None \<Rightarrow> [] | Some e \<Rightarrow> [(1::int, Wide [e])])
            else [(1, Narrow [''''])]).
            fst c = 1 \<and>
            (snd c = Narrow [''''] \<or> (\<exists>e. widen_chars cfg rt '''' = Some e \<and> snd c = Wide [e]))"
    by (auto split: option.splits)
  show ?thesis
    using out calls each by simp
qed

theorem set_interpreter_argv_empty_witness:
  "((None :: string list option) = None \<or> (0::int) \<le> 0) \<and>
   argv_calls (new_events fresh_world (snd (set_interpreter_argv cfg_py39 example_env 0 None True fresh_world))) =
     [(1, Wide [[]])] \<and>
   (Some [''prog''] = (None :: string list option) \<or> (- 2 :: int) \<le> 0) \<and>
   argv_calls (new_events fresh_world (snd (set_interpreter_argv cfg_py26 example_env (- 2) (Some [''prog'']) False fresh_world))) =
     [(1, Narrow [''''])]"
proof -
  have w: "widen_chars cfg_py39 example_env '''' = Some []"
    by (simp add: widen_chars_def cfg_py39_def example_env_def surrogateescape_decode_def)
  have m39: "3 \<le> PY_MAJOR_VERSION cfg_py39"
    by (simp add: cfg_py39_def)
  have m26: "\<not> 3 \<le> PY_MAJOR_VERSION cfg_py26"
    by (simp add: cfg_py26_def)
  have h1: "(None :: string list option) = None \<or> (0::int) \<le> 0" by simp
  have h2: "Some [''prog''] = (None :: string list option) \<or> (- 2 :: int) \<le> 0" by simp
  from set_interpreter_argv_empty [OF h1, of cfg_py39 example_env True fresh_world]
  have "argv_calls (new_events fresh_world (snd (set_interpreter_argv cfg_py39 example_env 0 None True fresh_world))) =
           (if 3 \<le> PY_MAJOR_VERSION cfg_py39
            then (case widen_chars cfg_py39 example_env '''' of None \<Rightarrow> [] | Some e \<Rightarrow> [(1, Wide [e])])
            else [(1, Narrow [''''])])"
    by blast
  then have a: "argv_calls (new_events fresh_world (snd (set_interpreter_argv cfg_py39 example_env 0 None True fresh_world))) =
     [(1, Wide [[]])]"
    by (simp add: w m39)
  from set_interpreter_argv_empty [OF h2, of cfg_py26 example_env False fresh_world]
  have "argv_calls (new_events fresh_world (snd (set_interpreter_argv cfg_py26 example_env (- 2) (Some [''prog'']) False fresh_world))) =
           (if 3 \<le> PY_MAJOR_VERSION cfg_py26
            then (case widen_chars cfg_py26 example_env '''' of None \<Rightarrow> [] | Some e \<Rightarrow> [(1, Wide [e])])
            else [(1, Narrow [''''])])"
    by blast
  then have b: "argv_calls (new_events fresh_world (snd (set_interpreter_argv cfg_py26 example_env (- 2) (Some [''prog'']) False fresh_world))) =
     [(1, Narrow [''''])]"
    by (simp add: m26)
  show ?thesis using a b by simp
qed

text \<open>
  Claim C4, evaluated for a build against Python 3.4 on a platform with
  \<open>HAVE_BROKEN_MBSTOWCS\<close>, started with the three arguments \<open>prog\<close>, the single byte 0xFF
  and \<open>x\<close> in the C locale. The second argument fails to convert: the converting
  \<open>mbstowcs\<close> call returns \<open>(size_t) -1\<close>. But \<open>widen_chars\<close> has sized the buffer with
  \<open>strlen\<close> and does not look at that value, so it returns a buffer, not the null pointer;
  the loop does not give up, and \<open>PySys_SetArgvEx\<close> is called with three entries, the
  second one being whatever the failed call left in the buffer. On the same build without
  \<open>HAVE_BROKEN_MBSTOWCS\<close> the measuring call reports the failure, \<open>widen_chars\<close> returns
  the null pointer, and the start completes without any set-argv call.
\<close>

theorem initialize_interpreter_broken_mbstowcs_sets_argv:
  "mbstowcs_return example_env [CHR 0xFF] 2 = None \<and>
   widen_chars cfg_py34_broken example_env [CHR 0xFF] = Some [] \<and>
   fst (initialize_interpreter cfg_py34_broken example_env True 3
          (Some [''prog'', [CHR 0xFF], ''x'']) True fresh_world) = Normal \<and>
   new_events fresh_world
     (snd (initialize_interpreter cfg_py34_broken example_env True 3
             (Some [''prog'', [CHR 0xFF], ''x'']) True fresh_world)) =
     [Ev_Py_IsInitialized, Ev_Py_InitializeEx 1,
      Ev_PySys_SetArgvEx 3 (Wide [[112, 114, 111, 103], [], [120]]) 1] \<and>
   sys_argv
     (snd (initialize_interpreter cfg_py34_broken example_env True 3
             (Some [''prog'', [CHR 0xFF], ''x'']) True fresh_world)) =
     Some (Wide [[112, 114, 111, 103], [], [120]]) \<and>
   widen_chars cfg_py34 example_env [CHR 0xFF] = None \<and>
   fst (initialize_interpreter cfg_py34 example_env True 3
          (Some [''prog'', [CHR 0xFF], ''x'']) True fresh_world) = Normal \<and>
   new_events fresh_world
     (snd (initialize_interpreter cfg_py34 example_env True 3
             (Some [''prog'', [CHR 0xFF], ''x'']) True fresh_world)) =
     [Ev_Py_IsInitialized, Ev_Py_InitializeEx 1] \<and>
   sys_argv
     (snd (initialize_interpreter cfg_py34 example_env True 3
             (Some [''prog'', [CHR 0xFF], ''x'']) True fresh_world)) = None"
proof -
  have ret: "mbstowcs_return example_env [CHR 0xFF] 2 = None"
    by (simp add: example_env_def ascii_decode_def)
  have b0: "widen_chars cfg_py34_broken example_env ''prog'' = Some [112, 114, 111, 103]"
    by (simp add: widen_chars_def cfg_py34_broken_def example_env_def ascii_decode_def)
  have b1: "widen_chars cfg_py34_broken example_env [CHR 0xFF] = Some []"
    by (simp add: widen_chars_def cfg_py34_broken_def example_env_def ascii_decode_def)
  have b2: "widen_chars cfg_py34_broken example_env ''x'' = Some [120]"
    by (simp add: widen_chars_def cfg_py34_broken_def example_env_def ascii_decode_def)
  have g0: "widen_chars cfg_py34 example_env ''prog'' = Some [112, 114, 111, 103]"
    by (simp add: widen_chars_def cfg_py34_def example_env_def ascii_decode_def)
  have g1: "widen_chars cfg_py34 example_env [CHR 0xFF] = None"
    by (simp add: widen_chars_def cfg_py34_def example_env_def ascii_decode_def)
  have lb: "widen_loop cfg_py34_broken example_env 3 [''prog'', [CHR 0xFF], ''x''] =
      Converted [[112, 114, 111, 103], [], [120]]"
    by (simp add: numeral_3_eq_3 b0 b1 b2)
  have lg: "widen_loop cfg_py34 example_env 3 [''prog'', [CHR 0xFF], ''x''] = Give_up"
    by (simp add: numeral_3_eq_3 g0 g1)
  have vb: "3 \<le> PY_MAJOR_VERSION cfg_py34_broken \<and> \<not> lacks_SetArgvEx cfg_py34_broken"
    by (simp add: cfg_py34_broken_def lacks_SetArgvEx_def)
  have vg: "3 \<le> PY_MAJOR_VERSION cfg_py34"
    by (simp add: cfg_py34_def)
  have encb: "\<And>v. set_interpreter_argv cfg_py34_broken example_env 3 (Some [''prog'', [CHR 0xFF], ''x'']) True v =
      (Normal, PySys_SetArgvEx example_env 3 (Wide [[112, 114, 111, 103], [], [120]]) 1 v)"
    by (simp add: set_interpreter_argv_def safe_args_def pysys_argv_def vb lb)
  have encg: "\<And>v. set_interpreter_argv cfg_py34 example_env 3 (Some [''prog'', [CHR 0xFF], ''x'']) True v =
      (Normal, v)"
    by (simp add: set_interpreter_argv_def safe_args_def pysys_argv_def vg lg)
  have nf: "\<And>v. init_fatal example_env v = False"
    by (simp add: example_env_def)
  have u: "initialized fresh_world = False"
    by (simp add: fresh_world_def)
  have startb: "initialize_interpreter cfg_py34_broken example_env True 3
          (Some [''prog'', [CHR 0xFF], ''x'']) True fresh_world =
      (Normal, PySys_SetArgvEx example_env 3 (Wide [[112, 114, 111, 103], [], [120]]) 1
         (snd (Py_InitializeEx example_env 1 (log_event Ev_Py_IsInitialized fresh_world))))"
    by (simp add: initialize_interpreter_def Py_IsInitialized_def Py_InitializeEx_def encb nf u)
  have startg: "initialize_interpreter cfg_py34 example_env True 3
          (Some [''prog'', [CHR 0xFF], ''x'']) True fresh_world =
      (Normal, snd (Py_InitializeEx example_env 1 (log_event Ev_Py_IsInitialized fresh_world)))"
    by (simp add: initialize_interpreter_def Py_IsInitialized_def Py_InitializeEx_def encg nf u)
  have evb: "new_events fresh_world
      (PySys_SetArgvEx example_env 3 (Wide [[112, 114, 111, 103], [], [120]]) 1
         (snd (Py_InitializeEx example_env 1 (log_event Ev_Py_IsInitialized fresh_world)))) =
     [Ev_Py_IsInitialized, Ev_Py_InitializeEx 1,
      Ev_PySys_SetArgvEx 3 (Wide [[112, 114, 111, 103], [], [120]]) 1]"
    by (simp add: new_events_def PySys_SetArgvEx_def Py_InitializeEx_def log_event_def
        example_env_def fresh_world_def)
  have avb: "sys_argv
      (PySys_SetArgvEx example_env 3 (Wide [[112, 114, 111, 103], [], [120]]) 1
         (snd (Py_InitializeEx example_env 1 (log_event Ev_Py_IsInitialized fresh_world)))) =
     Some (Wide [[112, 114, 111, 103], [], [120]])"
    by (simp add: PySys_SetArgvEx_def log_event_def)
  have evg: "new_events fresh_world
      (snd (Py_InitializeEx example_env 1 (log_event Ev_Py_IsInitialized fresh_world))) =
     [Ev_Py_IsInitialized, Ev_Py_InitializeEx 1]"
    by (simp add: new_events_def Py_InitializeEx_def log_event_def example_env_def fresh_world_def)
  have avg: "sys_argv
      (snd (Py_InitializeEx example_env 1 (log_event Ev_Py_IsInitialized fresh_world))) = None"
    by (simp add: Py_InitializeEx_def log_event_def example_env_def fresh_world_def)
  show ?thesis
    by (simp add: ret b1 g1 startb startg evb avb evg avg)
qed

text \<open>
  Claim C8, evaluated for a build against Python 2.6.0, which has no \<open>PySys_SetArgvEx\<close>,
  with \<open>add_current_dir_to_path\<close> false and a search path of two entries. The encoder
  calls \<open>PySys_SetArgv\<close>, which puts the script directory in front, and then
  \<open>sys.path.pop()\<close>: the entry removed is the last one, and the directory that was just
  put in front stays.
\<close>

theorem set_interpreter_argv_py26_pops_last:
  "lacks_SetArgvEx cfg_py26 \<and>
   sys_path fresh_world = [''/usr/lib/python'', ''/usr/lib/site''] \<and>
   sys_path (PySys_SetArgv example_env 1 (Narrow [''prog'']) fresh_world) =
     [''/opt/app'', ''/usr/lib/python'', ''/usr/lib/site''] \<and>
   fst (set_interpreter_argv cfg_py26 example_env 1 (Some [''prog'']) False fresh_world) = Normal \<and>
   new_events fresh_world (snd (set_interpreter_argv cfg_py26 example_env 1 (Some [''prog'']) False fresh_world)) =
     [Ev_PySys_SetArgv 1 (Narrow [''prog'']), Ev_sys_path_pop] \<and>
   sys_path (snd (set_interpreter_argv cfg_py26 example_env 1 (Some [''prog'']) False fresh_world)) =
     [''/opt/app'', ''/usr/lib/python'']"
  by (simp add: set_interpreter_argv_def safe_args_def pysys_argv_def lacks_SetArgvEx_def cfg_py26_def
      example_env_def fresh_world_def new_events_def PySys_SetArgv_def sys_path_pop_def log_event_def)

subsection \<open>Module pre-registration: \<open>embedded_module\<close>\<close>

text \<open>
  Claim C5. Constructing an \<open>embedded_module\<close> fails with "Can't add new modules after
  the interpreter has been initialized" exactly when the runtime is initialized, and then
  only the query has been made. When the runtime is not initialized it calls
  \<open>PyImport_AppendInittab\<close> with the name and the initializer, and fails with
  "Insufficient memory to add a new module" exactly when that primitive could not extend
  the table. On success the world differs from the one before in the table, which has the
  new entry at its end, and in the log only: nothing of the runtime is created.
\<close>

theorem embedded_module_outcomes:
  "(fst (embedded_module name init w) =
      Threw (Runtime_error ''Can't add new modules after the interpreter has been initialized'')
      \<longleftrightarrow> initialized w) \<and>
   (initialized w \<longrightarrow> snd (embedded_module name init w) = log_event Ev_Py_IsInitialized w) \<and>
   (\<not> initialized w \<longrightarrow>
      (fst (embedded_module name init w) = Threw (Runtime_error ''Insufficient memory to add a new module'')
         \<longleftrightarrow> \<not> inittab_can_grow w) \<and>
      new_events w (snd (embedded_module name init w)) =
        [Ev_Py_IsInitialized, Ev_PyImport_AppendInittab name init]) \<and>
   (\<not> initialized w \<and> inittab_can_grow w \<longrightarrow>
      embedded_module name init w =
        (Normal, w\<lparr>inittab := inittab w @ [(name, init)],
                   trace := trace w @ [Ev_Py_IsInitialized, Ev_PyImport_AppendInittab name init]\<rparr>))"
  by (simp add: embedded_module_def Py_IsInitialized_def PyImport_AppendInittab_def pybind11_fail_def
      log_event_def new_events_def)

theorem embedded_module_outcomes_witness:
  "initialized bare_world \<and>
   fst (embedded_module ''example'' 1 bare_world) =
     Threw (Runtime_error ''Can't add new modules after the interpreter has been initialized'') \<and>
   \<not> initialized fresh_world \<and> inittab_can_grow fresh_world \<and>
   fst (embedded_module ''example'' 1 fresh_world) = Normal \<and>
   inittab (snd (embedded_module ''example'' 1 fresh_world)) = [(''example'', 1)] \<and>
   \<not> initialized (fresh_world\<lparr>inittab_can_grow := False\<rparr>) \<and>
   \<not> inittab_can_grow (fresh_world\<lparr>inittab_can_grow := False\<rparr>) \<and>
   fst (embedded_module ''example'' 1 (fresh_world\<lparr>inittab_can_grow := False\<rparr>)) =
     Threw (Runtime_error ''Insufficient memory to add a new module'')"
proof -
  have a: "initialized bare_world"
    by (simp add: bare_world_def fresh_world_def)
  have b: "\<not> initialized fresh_world \<and> inittab_can_grow fresh_world \<and> inittab fresh_world = []"
    by (simp add: fresh_world_def)
  have c: "\<not> initialized (fresh_world\<lparr>inittab_can_grow := False\<rparr>) \<and>
           \<not> inittab_can_grow (fresh_world\<lparr>inittab_can_grow := False\<rparr>)"
    by (simp add: fresh_world_def)
  from embedded_module_outcomes [of "''example''" 1 bare_world] a
  have r1: "fst (embedded_module ''example'' 1 bare_world) =
     Threw (Runtime_error ''Can't add new modules after the interpreter has been initialized'')"
    by blast
  from embedded_module_outcomes [of "''example''" 1 fresh_world] b
  have "embedded_module ''example'' 1 fresh_world =
        (Normal, fresh_world\<lparr>inittab := inittab fresh_world @ [(''example'', 1)],
                   trace := trace fresh_world @ [Ev_Py_IsInitialized, Ev_PyImport_AppendInittab ''example'' 1]\<rparr>)"
    by blast
  with b have r2: "fst (embedded_module ''example'' 1 fresh_world) = Normal \<and>
      inittab (snd (embedded_module ''example'' 1 fresh_world)) = [(''example'', 1)]"
    by simp
  from embedded_module_outcomes [of "''example''" 1 "fresh_world\<lparr>inittab_can_grow := False\<rparr>"] c
  have r3: "fst (embedded_module ''example'' 1 (fresh_world\<lparr>inittab_can_grow := False\<rparr>)) =
     Threw (Runtime_error ''Insufficient memory to add a new module'')"
    by blast
  show ?thesis using a b c r1 r2 r3 by simp
qed

subsection \<open>The initializer wrapper\<close>

text \<open>
  Claim C7, as amended. When the body of a module initializer throws an exception derived
  from \<open>std::exception\<close> (\<open>pybind11::error_already_set\<close> included), the wrapper catches
  it, sets an ImportError carrying the exception's message and returns the null pointer.
  An exception of any other type is not caught: it leaves the wrapper.
\<close>

theorem pybind11_init_wrapper_std_exception:
  assumes "new_module name w = (Inr m, w0)" and "body m w0 = (Some e, w1)"
  shows "(e \<noteq> Foreign_exception \<longrightarrow>
            pybind11_init_wrapper new_module body name w =
              (Inr None, PyErr_SetString ''ImportError'' (what e) w1) \<and>
            py_error (snd (pybind11_init_wrapper new_module body name w)) = Some (''ImportError'', what e)) \<and>
         (e = Foreign_exception \<longrightarrow>
            pybind11_init_wrapper new_module body name w = (Inl Foreign_exception, w1))"
  using assms by (cases e) (simp_all add: pybind11_init_wrapper_def PyErr_SetString_def log_event_def)

theorem pybind11_init_wrapper_std_exception_witness:
  "module_at 1 ''example'' bare_world = (Inr 1, bare_world) \<and>
   body_throws (Error_already_set ''boom'') 1 bare_world = (Some (Error_already_set ''boom''), bare_world) \<and>
   Error_already_set ''boom'' \<noteq> Foreign_exception \<and>
   pybind11_init_wrapper (module_at 1) (body_throws (Error_already_set ''boom'')) ''example'' bare_world =
     (Inr None, PyErr_SetString ''ImportError'' ''boom'' bare_world) \<and>
   py_error (snd (pybind11_init_wrapper (module_at 1) (body_throws (Error_already_set ''boom'')) ''example'' bare_world)) =
     Some (''ImportError'', ''boom'')"
proof -
  have h1: "module_at 1 ''example'' bare_world = (Inr 1, bare_world)"
    by (simp add: module_at_def)
  have h2: "body_throws (Error_already_set ''boom'') 1 bare_world = (Some (Error_already_set ''boom''), bare_world)"
    by (simp add: body_throws_def)
  have h3: "Error_already_set ''boom'' \<noteq> Foreign_exception"
    by simp
  note t = pybind11_init_wrapper_std_exception
    [where new_module = "module_at 1" and body = "body_throws (Error_already_set ''boom'')", OF h1 h2]
  from t h3 have
    "pybind11_init_wrapper (module_at 1) (body_throws (Error_already_set ''boom'')) ''example'' bare_world =
       (Inr None, PyErr_SetString ''ImportError'' (what (Error_already_set ''boom'')) bare_world)"
    "py_error (snd (pybind11_init_wrapper (module_at 1) (body_throws (Error_already_set ''boom'')) ''example'' bare_world)) =
       Some (''ImportError'', what (Error_already_set ''boom''))"
    by blast+
  then show ?thesis
    using h1 h2 by simp
qed

text \<open>
  Claim C7 as stated fails: a body that throws a value whose type does not derive from
  \<open>std::exception\<close> is not caught by the wrapper. The exception propagates and no error
  is set in the runtime.
\<close>

theorem pybind11_init_wrapper_foreign_counterexample:
  "body_throws Foreign_exception 1 bare_world = (Some Foreign_exception, bare_world) \<and>
   pybind11_init_wrapper (module_at 1) (body_throws Foreign_exception) ''example'' bare_world =
     (Inl Foreign_exception, bare_world) \<and>
   py_error bare_world = None"
  by (simp add: pybind11_init_wrapper_def module_at_def body_throws_def bare_world_def fresh_world_def)

subsection \<open>The scoped guard\<close>

text \<open>
  Claim C6. After a guard has been constructed successfully and a second guard has been
  move-constructed from it, the destructor of the moved-from guard leaves every world
  unchanged and the destructor of the second guard is \<open>finalize_interpreter\<close>. Destroying
  both guards, in either order, therefore calls \<open>Py_Finalize\<close> exactly once, and
  afterwards the runtime reports that it is not initialized.
\<close>

theorem scoped_interpreter_move_stops_once:
  assumes "scoped_interpreter_ctor cfg rt s n a d w = (Normal, Some g, w1)"
    and "scoped_interpreter_move g = (g2, g1)"
  shows "initialized w1 \<and>
         (\<forall>v. scoped_interpreter_dtor cfg rt g1 v = v) \<and>
         (\<forall>v. scoped_interpreter_dtor cfg rt g2 v = finalize_interpreter cfg rt v) \<and>
         count_list (trace (scoped_interpreter_dtor cfg rt g1 (scoped_interpreter_dtor cfg rt g2 w1))) Ev_Py_Finalize
           = count_list (trace w1) Ev_Py_Finalize + 1 \<and>
         \<not> initialized (scoped_interpreter_dtor cfg rt g1 (scoped_interpreter_dtor cfg rt g2 w1)) \<and>
         count_list (trace (scoped_interpreter_dtor cfg rt g2 (scoped_interpreter_dtor cfg rt g1 w1))) Ev_Py_Finalize
           = count_list (trace w1) Ev_Py_Finalize + 1 \<and>
         \<not> initialized (scoped_interpreter_dtor cfg rt g2 (scoped_interpreter_dtor cfg rt g1 w1))"
proof -
  have run: "initialized w1"
    using scoped_interpreter_ctor_Normal[OF assms(1)] initialize_interpreter_Normal_initialized by blast
  have g1: "\<not> is_valid g1" and g2: "is_valid g2"
    using assms(2) by (auto simp: scoped_interpreter_move_def)
  have d1: "\<forall>v. scoped_interpreter_dtor cfg rt g1 v = v"
    using g1 by (simp add: scoped_interpreter_dtor_def)
  have d2: "\<forall>v. scoped_interpreter_dtor cfg rt g2 v = finalize_interpreter cfg rt v"
    using g2 by (simp add: scoped_interpreter_dtor_def)
  show ?thesis
    using run d1 d2 by (simp add: count_Finalize_finalize_interpreter initialized_finalize_interpreter)
qed

theorem scoped_interpreter_move_stops_once_witness:
  "fst (scoped_interpreter_ctor cfg_py39 example_env True 0 None True fresh_world) = Normal \<and>
   fst (snd (scoped_interpreter_ctor cfg_py39 example_env True 0 None True fresh_world)) = Some \<lparr>is_valid = True\<rparr> \<and>
   scoped_interpreter_move \<lparr>is_valid = True\<rparr> = (\<lparr>is_valid = True\<rparr>, \<lparr>is_valid = False\<rparr>) \<and>
   count_list (trace (snd (snd (scoped_interpreter_ctor cfg_py39 example_env True 0 None True fresh_world)))) Ev_Py_Finalize = 0 \<and>
   count_list (trace (scoped_interpreter_dtor cfg_py39 example_env \<lparr>is_valid = False\<rparr>
      (scoped_interpreter_dtor cfg_py39 example_env \<lparr>is_valid = True\<rparr>
         (snd (snd (scoped_interpreter_ctor cfg_py39 example_env True 0 None True fresh_world)))))) Ev_Py_Finalize = 1 \<and>
   \<not> initialized (scoped_interpreter_dtor cfg_py39 example_env \<lparr>is_valid = False\<rparr>
      (scoped_interpreter_dtor cfg_py39 example_env \<lparr>is_valid = True\<rparr>
         (snd (snd (scoped_interpreter_ctor cfg_py39 example_env True 0 None True fresh_world)))))"
proof -
  have ini: "initialize_interpreter cfg_py39 example_env True 0 None True fresh_world =
      (Normal, PySys_SetArgvEx example_env 1 (Wide [[]]) 1
         (snd (Py_InitializeEx example_env 1 (log_event Ev_Py_IsInitialized fresh_world))))"
    by (simp add: initialize_interpreter_def Py_IsInitialized_def Py_InitializeEx_def
        set_interpreter_argv_def safe_args_def pysys_argv_def widen_chars_def lacks_SetArgvEx_def
        log_event_def cfg_py39_def example_env_def surrogateescape_decode_def fresh_world_def)
  have c: "scoped_interpreter_ctor cfg_py39 example_env True 0 None True fresh_world =
      (Normal, Some \<lparr>is_valid = True\<rparr>,
       snd (snd (scoped_interpreter_ctor cfg_py39 example_env True 0 None True fresh_world)))"
    by (simp add: scoped_interpreter_ctor_def ini)
  have mv: "scoped_interpreter_move \<lparr>is_valid = True\<rparr> = (\<lparr>is_valid = True\<rparr>, \<lparr>is_valid = False\<rparr>)"
    by (simp add: scoped_interpreter_move_def)
  have z: "count_list (trace (snd (snd (scoped_interpreter_ctor cfg_py39 example_env True 0 None True fresh_world)))) Ev_Py_Finalize = 0"
  proof -
    have "snd (snd (scoped_interpreter_ctor cfg_py39 example_env True 0 None True fresh_world)) =
        PySys_SetArgvEx example_env 1 (Wide [[]]) 1
         (snd (Py_InitializeEx example_env 1 (log_event Ev_Py_IsInitialized fresh_world)))"
      by (simp add: scoped_interpreter_ctor_def ini)
    then show ?thesis
      by (simp add: PySys_SetArgvEx_def Py_InitializeEx_def log_event_def example_env_def fresh_world_def)
  qed
  note t = scoped_interpreter_move_stops_once [OF c mv]
  from t have "count_list (trace (scoped_interpreter_dtor cfg_py39 example_env \<lparr>is_valid = False\<rparr>
      (scoped_interpreter_dtor cfg_py39 example_env \<lparr>is_valid = True\<rparr>
         (snd (snd (scoped_interpreter_ctor cfg_py39 example_env True 0 None True fresh_world)))))) Ev_Py_Finalize =
      count_list (trace (snd (snd (scoped_interpreter_ctor cfg_py39 example_env True 0 None True fresh_world)))) Ev_Py_Finalize + 1"
    by blast
  with z have n1: "count_list (trace (scoped_interpreter_dtor cfg_py39 example_env \<lparr>is_valid = False\<rparr>
      (scoped_interpreter_dtor cfg_py39 example_env \<lparr>is_valid = True\<rparr>
         (snd (snd (scoped_interpreter_ctor cfg_py39 example_env True 0 None True fresh_world)))))) Ev_Py_Finalize = 1"
    by simp
  from t have n2: "\<not> initialized (scoped_interpreter_dtor cfg_py39 example_env \<lparr>is_valid = False\<rparr>
      (scoped_interpreter_dtor cfg_py39 example_env \<lparr>is_valid = True\<rparr>
         (snd (snd (scoped_interpreter_ctor cfg_py39 example_env True 0 None True fresh_world)))))"
    by blast
  from c have c1: "fst (scoped_interpreter_ctor cfg_py39 example_env True 0 None True fresh_world) = Normal"
    by (simp add: prod_eq_iff)
  from c have c2: "fst (snd (scoped_interpreter_ctor cfg_py39 example_env True 0 None True fresh_world)) = Some \<lparr>is_valid = True\<rparr>"
    by (simp add: prod_eq_iff)
  show ?thesis using c1 c2 mv z n1 n2 by simp
qed

text \<open>
  Claim C9. The move constructor yields a guard whose flag is true whatever the flag of
  its source: the result is the same for an owning and for a non-owning source, and the
  source's flag is false afterwards. So a guard move-constructed from a moved-from guard
  considers itself owning, and its destructor runs \<open>finalize_interpreter\<close>.
\<close>

theorem scoped_interpreter_move_always_owning:
  "is_valid (fst (scoped_interpreter_move other)) \<and>
   \<not> is_valid (snd (scoped_interpreter_move other)) \<and>
   fst (scoped_interpreter_move other) = fst (scoped_interpreter_move \<lparr>is_valid = True\<rparr>) \<and>
   fst (scoped_interpreter_move other) = fst (scoped_interpreter_move \<lparr>is_valid = False\<rparr>) \<and>
   is_valid (fst (scoped_interpreter_move (snd (scoped_interpreter_move other)))) \<and>
   scoped_interpreter_dtor cfg rt (fst (scoped_interpreter_move (snd (scoped_interpreter_move other)))) w
     = finalize_interpreter cfg rt w"
  by (simp add: scoped_interpreter_move_def scoped_interpreter_dtor_def)

end
